theory Spec2Isabelle
  imports Complex_Main
begin

section \<open>Data model\<close>

text \<open>
  The charging core of the repository is embedded as pure functions over an explicit
  \<open>world\<close>: the relational tables the services read and write, the process-local
  registry \<open>ChargingSessionsService.active_sessions\<close>, and the failures of the database
  that the code catches.  Python floats and DECIMAL columns are modelled as exact reals,
  Python exceptions as the left summand of a sum type.  Where a float is truncated to an
  integer, and the rounding of float arithmetic therefore decides the result, the rounding
  is the explicit function \<open>float_round\<close> of the world, about which the model
  assumes nothing.
\<close>

datatype py_error = KeyError | AttributeError | TypeError | ZeroDivisionError
  | DatabaseError | ConnectionClosed

text \<open>\<open>models/port.py\<close>; the status column is the enumeration
  Available, InUse, Faulty, Maintenance, handled as a string by the services.\<close>

record port =
  p_station_id :: nat
  p_max_power :: real
  p_connector_type :: string
  p_status :: string

text \<open>\<open>models/station.py\<close>; the status column is the enumeration
  active, inactive, maintenance.\<close>

record station =
  st_status :: string
  st_price_per_kwh :: real

record user =
  u_balance :: real
  u_points :: "int option"

record car =
  c_battery_capacity :: real
  c_max_charging_power :: real

text \<open>\<open>models/discount.py\<close>.\<close>

record discount =
  d_code :: string
  d_value :: real
  d_expiry_on :: "int option"
  d_usage_count :: nat
  d_max_uses :: "int option"

text \<open>\<open>models/chargingSession.py\<close>: the persisted row.\<close>

record charging_session =
  cs_id :: nat
  cs_user_id :: nat
  cs_port_id :: nat
  cs_car_id :: "nat option"
  cs_started_on :: int
  cs_end_on :: "int option"
  cs_energy_consumed :: "real option"
  cs_power_limit :: "real option"
  cs_cost :: "real option"

record transaction =
  t_user_id :: nat
  t_car_id :: nat
  t_station_id :: nat
  t_amount :: real
  t_type :: string

text \<open>
  The dictionary stored in \<open>active_sessions\<close>.  The keys written by
  \<open>initialize_charging\<close> are always present; the keys added later
  (\<open>car_id\<close>, \<open>target_kwh\<close>, \<open>estimated_cost\<close>, \<open>discount_code\<close>,
  \<open>last_points_kwh\<close>) are optional, \<open>None\<close> standing for a key that is absent
  (or, for \<open>discount_code\<close>, bound to Python's \<open>None\<close>: the code reads it with
  \<open>dict.get\<close> only).
\<close>

record active_session =
  session_id :: nat
  user_id :: nat
  port_id :: nat
  station_id :: nat
  max_power :: real
  price_per_kwh :: real
  connector_type :: string
  charging_status :: string
  started_on :: int
  current_kwh :: real
  current_power :: real
  current_cost :: real
  car_id :: "nat option"
  target_kwh :: "real option"
  estimated_cost :: "real option"
  discount_code :: "string option"
  last_points_kwh :: "real option"

text \<open>The database operations whose failure the callers have to survive.\<close>

datatype db_op = DiscountQuery | DiscountCommit | TransactionCommit | BalanceCommit
  | PortCommit

record world =
  ports :: "nat \<rightharpoonup> port"
  stations :: "nat \<rightharpoonup> station"
  users :: "nat \<rightharpoonup> user"
  cars :: "nat \<rightharpoonup> car"
  discounts :: "discount list"
  charging_sessions :: "charging_session list"
  transactions :: "transaction list"
  active_sessions :: "nat \<rightharpoonup> active_session"
  clock :: int
  db_fails :: "db_op \<Rightarrow> bool"
  float_round :: "real \<Rightarrow> real"

section \<open>Discount engine (\<open>services/discountService.py\<close>)\<close>

datatype DiscountStatus = SUCCESS | NOT_FOUND | EXPIRED | MAX_USES_REACHED | ERROR

text \<open>\<open>str.lower\<close> on ASCII letters.\<close>

fun lower_char :: "char \<Rightarrow> char" where
  "lower_char (Char b0 b1 b2 b3 b4 b5 b6 b7) =
     (let n = (of_char (Char b0 b1 b2 b3 b4 b5 b6 b7) :: nat)
      in if 65 \<le> n \<and> n \<le> 90 then Char b0 b1 b2 b3 b4 True b6 b7
         else Char b0 b1 b2 b3 b4 b5 b6 b7)"

definition lower :: "string \<Rightarrow> string" where
  "lower s = map lower_char s"

text \<open>
  \<open>db.session.query(Discount).filter(func.lower(Discount.code) == code.lower()).first()\<close>:
  the first row of the table whose code matches case-insensitively.
\<close>

fun first_discount :: "discount list \<Rightarrow> string \<Rightarrow> discount option" where
  "first_discount [] code = None"
| "first_discount (d # ds) code =
     (if lower (d_code d) = lower code then Some d else first_discount ds code)"

text \<open>\<open>discount.usage_count += 1\<close> on the row that the query returned.\<close>

fun increment_usage :: "discount list \<Rightarrow> string \<Rightarrow> discount list" where
  "increment_usage [] code = []"
| "increment_usage (d # ds) code =
     (if lower (d_code d) = lower code
      then d\<lparr>d_usage_count := d_usage_count d + 1\<rparr> # ds
      else d # increment_usage ds code)"

text \<open>
  \<open>apply_discount\<close>.  The expiry test compares \<open>datetime.utcnow()\<close> with the
  BigInteger column \<open>expiry_on\<close>; whenever the column is truthy (not NULL, not 0) this
  comparison of a datetime with an int raises \<open>TypeError\<close>.  Every exception is
  rolled back and raised again, so a raising call leaves the world as it was.
  The message is determined by the status and is not modelled.
\<close>

definition apply_discount ::
  "world \<Rightarrow> real \<Rightarrow> string \<Rightarrow> py_error + (world \<times> real \<times> DiscountStatus)" where
  "apply_discount w amount code =
     (if db_fails w DiscountQuery then Inl DatabaseError
      else case first_discount (discounts w) code of
        None \<Rightarrow> Inr (w, amount, NOT_FOUND)
      | Some d \<Rightarrow>
          if (case d_expiry_on d of None \<Rightarrow> False | Some e \<Rightarrow> e \<noteq> 0) then Inl TypeError
          else if (case d_max_uses d of None \<Rightarrow> False | Some m \<Rightarrow> int (d_usage_count d) \<ge> m)
          then Inr (w, amount, MAX_USES_REACHED)
          else if db_fails w DiscountCommit then Inl DatabaseError
          else Inr (w\<lparr>discounts := increment_usage (discounts w) code\<rparr>,
                    amount * (1 - d_value d / 100), SUCCESS))"

section \<open>Port, user and transaction services\<close>

text \<open>\<open>PortService.update_status\<close>: writes the status of an existing port and
  does nothing for an unknown one; there is no handler, a failing commit raises.\<close>

definition update_status :: "world \<Rightarrow> nat \<Rightarrow> string \<Rightarrow> py_error + world" where
  "update_status w pid st =
     (case ports w pid of
        None \<Rightarrow> Inr w
      | Some p \<Rightarrow>
          if db_fails w PortCommit then Inl DatabaseError
          else Inr (w\<lparr>ports := (ports w)(pid \<mapsto> p\<lparr>p_status := st\<rparr>)\<rparr>))"

text \<open>\<open>UsersService.update_balance\<close>: returns False for an unknown user, and lets
  a failing commit raise.\<close>

definition update_balance :: "world \<Rightarrow> nat \<Rightarrow> real \<Rightarrow> py_error + world" where
  "update_balance w uid amount =
     (case users w uid of
        None \<Rightarrow> Inr w
      | Some u \<Rightarrow>
          if db_fails w BalanceCommit then Inl DatabaseError
          else Inr (w\<lparr>users := (users w)(uid \<mapsto> u\<lparr>u_balance := u_balance u + amount\<rparr>)\<rparr>))"

text \<open>\<open>UsersService.add_points\<close>: a NULL points column counts as 0.\<close>

definition add_points :: "world \<Rightarrow> nat \<Rightarrow> int \<Rightarrow> world" where
  "add_points w uid points =
     (case users w uid of
        None \<Rightarrow> w
      | Some u \<Rightarrow>
          w\<lparr>users := (users w)(uid \<mapsto>
               u\<lparr>u_points := Some ((case u_points u of None \<Rightarrow> 0 | Some p \<Rightarrow> p) + points)\<rparr>)\<rparr>)"

text \<open>\<open>TransactionService.create_transaction\<close>: no handler, a failing commit raises.\<close>

definition create_transaction ::
  "world \<Rightarrow> nat \<Rightarrow> nat \<Rightarrow> nat \<Rightarrow> real \<Rightarrow> string \<Rightarrow> py_error + world" where
  "create_transaction w uid cid stid amount ty =
     (if db_fails w TransactionCommit then Inl DatabaseError
      else Inr (w\<lparr>transactions := transactions w @
                  [\<lparr>t_user_id = uid, t_car_id = cid, t_station_id = stid,
                    t_amount = amount, t_type = ty\<rparr>]\<rparr>))"

section \<open>Session registry (\<open>services/chargingSessionService.py\<close>)\<close>

text \<open>\<open>create_session\<close>: the new id is one more than the largest id of the table.\<close>

definition create_session :: "world \<Rightarrow> nat \<Rightarrow> nat \<Rightarrow> world \<times> charging_session" where
  "create_session w uid pid =
     (let rows = charging_sessions w;
          next_id = (if rows = [] then 1 else Max (set (map cs_id rows)) + 1);
          new_session = \<lparr>cs_id = next_id, cs_user_id = uid, cs_port_id = pid, cs_car_id = None,
                         cs_started_on = clock w, cs_end_on = None, cs_energy_consumed = None,
                         cs_power_limit = None, cs_cost = None\<rparr>
      in (w\<lparr>charging_sessions := rows @ [new_session]\<rparr>, new_session))"

definition get_session_status :: "world \<Rightarrow> nat \<Rightarrow> active_session option" where
  "get_session_status w sid = active_sessions w sid"

text \<open>
  \<open>initialize_charging\<close>.  Nothing looks at the status of the port.  A missing port
  raises at \<open>port.station_id\<close> before anything is written; a failing port update
  raises after the row was created; a missing station raises only at \<open>station.id\<close>,
  after the row was created and the port marked.  The handler returns \<open>None\<close> and
  undoes nothing.
\<close>

definition initialize_charging :: "world \<Rightarrow> nat \<Rightarrow> nat \<Rightarrow> world \<times> active_session option" where
  "initialize_charging w uid pid =
     (case ports w pid of
        None \<Rightarrow> (w, None)
      | Some port \<Rightarrow>
          let station = stations w (p_station_id port);
              (w1, session) = create_session w uid pid
          in case update_status w1 pid ''InUse'' of
               Inl e \<Rightarrow> (w1, None)
             | Inr w2 \<Rightarrow>
                 (case station of
                    None \<Rightarrow> (w2, None)
                  | Some st \<Rightarrow>
                      let entry = \<lparr>session_id = cs_id session, user_id = uid, port_id = pid,
                                   station_id = p_station_id port, max_power = p_max_power port,
                                   price_per_kwh = st_price_per_kwh st,
                                   connector_type = p_connector_type port,
                                   charging_status = ''initialized'', started_on = clock w,
                                   current_kwh = 0, current_power = 0, current_cost = 0,
                                   car_id = None, target_kwh = None, estimated_cost = None,
                                   discount_code = None, last_points_kwh = None\<rparr>
                      in (w2\<lparr>active_sessions :=
                               (active_sessions w2)(cs_id session \<mapsto> entry)\<rparr>,
                          Some entry)))"

text \<open>Python's truth test on an optional string: \<open>None\<close> and the empty string are false.\<close>

definition truthy_code :: "string option \<Rightarrow> string option" where
  "truthy_code c = (case c of None \<Rightarrow> None | Some s \<Rightarrow> if s = [] then None else Some s)"

datatype start_message = NoSessionOrWrongUser | DiscountError DiscountStatus
  | InsufficientBalance real real | VehicleNotFound | ChargingStarted | SystemError py_error

text \<open>The row update inside \<open>start_charging\<close>.\<close>

definition set_car_and_limit ::
  "charging_session list \<Rightarrow> nat \<Rightarrow> nat \<Rightarrow> real \<Rightarrow> charging_session list" where
  "set_car_and_limit rows sid cid limit =
     map (\<lambda>r. if cs_id r = sid then r\<lparr>cs_car_id := Some cid, cs_power_limit := Some limit\<rparr> else r) rows"

text \<open>
  The two statements that end each failing branch of \<open>start_charging\<close>:
  \<open>update_status(port_id, 'Available')\<close> and the return of the failure tuple.  A
  port update that raises ends in the handler of the whole body, which answers
  \<open>(False, 0, system error)\<close>.
\<close>

definition release_port ::
  "world \<Rightarrow> nat \<Rightarrow> real \<Rightarrow> start_message \<Rightarrow> world \<times> bool \<times> real \<times> start_message" where
  "release_port w pid cost message =
     (case update_status w pid ''Available'' of
        Inl e \<Rightarrow> (w, False, 0, SystemError e)
      | Inr w' \<Rightarrow> (w', False, cost, message))"

text \<open>
  \<open>start_charging\<close>, returning the tuple (success, estimated cost, message).  The
  user is read before the discount is applied, but \<open>user.balance\<close> is evaluated
  (and raises for an unknown user) only after it.
\<close>

definition start_charging ::
  "world \<Rightarrow> nat \<Rightarrow> nat \<Rightarrow> real \<Rightarrow> nat \<Rightarrow> string option
     \<Rightarrow> world \<times> bool \<times> real \<times> start_message" where
  "start_charging w sid uid target cid dcode =
     (case get_session_status w sid of
        None \<Rightarrow> (w, False, 0, NoSessionOrWrongUser)
      | Some session \<Rightarrow>
          if user_id session \<noteq> uid then (w, False, 0, NoSessionOrWrongUser)
          else
            let user = users w uid;
                cost0 = target * price_per_kwh session;
                discounted =
                  (case truthy_code dcode of
                     None \<Rightarrow> Inr (w, cost0, None)
                   | Some c \<Rightarrow>
                       (case apply_discount w cost0 c of
                          Inl e \<Rightarrow> Inl e
                        | Inr (w1, cost, st) \<Rightarrow> Inr (w1, cost, Some st)))
            in case discounted of
                 Inl e \<Rightarrow> (w, False, 0, SystemError e)
               | Inr (w1, cost, st) \<Rightarrow>
                   if st \<noteq> None \<and> st \<noteq> Some SUCCESS
                   then release_port w1 (port_id session) cost (DiscountError (the st))
                   else case user of
                     None \<Rightarrow> (w1, False, 0, SystemError AttributeError)
                   | Some u \<Rightarrow>
                       if u_balance u < cost
                       then release_port w1 (port_id session) cost
                              (InsufficientBalance cost (u_balance u))
                       else case cars w1 cid of
                         None \<Rightarrow> release_port w1 (port_id session) cost VehicleNotFound
                       | Some c \<Rightarrow>
                           (w1\<lparr>charging_sessions :=
                                  set_car_and_limit (charging_sessions w1) sid cid
                                    (min (max_power session) (c_max_charging_power c)),
                                active_sessions := (active_sessions w1)(sid \<mapsto>
                                  session\<lparr>car_id := Some cid, target_kwh := Some target,
                                          estimated_cost := Some cost,
                                          charging_status := ''charging'',
                                          discount_code := truthy_code dcode\<rparr>)\<rparr>,
                            True, cost, ChargingStarted))"

text \<open>Python's \<open>int\<close> on a float truncates towards zero.\<close>

definition py_int :: "real \<Rightarrow> int" where
  "py_int x = (if 0 \<le> x then \<lfloor>x\<rfloor> else \<lceil>x\<rceil>)"

text \<open>
  \<open>update_charging_status\<close>: the tick update with the loyalty points, 100 points
  for 1 kWh.  The difference and the product are float operations, each of which rounds
  its exact result (\<open>float_round\<close>) before \<open>int\<close> truncates.
\<close>

definition update_charging_status ::
  "world \<Rightarrow> nat \<Rightarrow> real \<Rightarrow> string \<Rightarrow> real \<Rightarrow> real \<Rightarrow> world \<times> bool" where
  "update_charging_status w sid kwh status charging_power cost =
     (case active_sessions w sid of
        None \<Rightarrow> (w, False)
      | Some session \<Rightarrow>
          let session1 = session\<lparr>current_kwh := kwh, current_power := charging_power,
                                 current_cost := cost, charging_status := status\<rparr>;
              points_to_add =
                py_int (float_round w
                  (float_round w
                     (kwh - (case last_points_kwh session1 of None \<Rightarrow> 0 | Some l \<Rightarrow> l))
                   * 100))
          in if points_to_add > 0
             then (add_points
                     (w\<lparr>active_sessions := (active_sessions w)(sid \<mapsto>
                          session1\<lparr>last_points_kwh := Some kwh\<rparr>)\<rparr>)
                     (user_id session1) points_to_add, True)
             else (w\<lparr>active_sessions := (active_sessions w)(sid \<mapsto> session1)\<rparr>, True))"

section \<open>Settlement\<close>

text \<open>
  \<open>process_payment\<close>, returning (final cost, success).  One handler encloses the
  whole body: the discount, the transaction and the debit.  Whatever raises inside
  makes the payment fail, and what was committed before stays committed.
  The parameters \<open>car_id\<close> and \<open>station_id\<close> are not used by the body, which reads
  both from the registry entry, and are left out.
\<close>

definition process_payment ::
  "world \<Rightarrow> nat \<Rightarrow> real \<Rightarrow> string option \<Rightarrow> world \<times> real \<times> bool" where
  "process_payment w sid final_cost dcode =
     (case active_sessions w sid of
        None \<Rightarrow> (w, final_cost, False)
      | Some session \<Rightarrow>
          let discounted =
                (case truthy_code dcode of
                   None \<Rightarrow> Inr (w, final_cost)
                 | Some c \<Rightarrow>
                     (case apply_discount w final_cost c of
                        Inl e \<Rightarrow> Inl e
                      | Inr (w1, cost, st) \<Rightarrow>
                          Inr (w1, if st = SUCCESS then cost else final_cost)))
          in case discounted of
               Inl e \<Rightarrow> (w, final_cost, False)
             | Inr (w1, cost) \<Rightarrow>
                 (case car_id session of
                    None \<Rightarrow> (w1, cost, False)
                  | Some cid \<Rightarrow>
                      (case create_transaction w1 (user_id session) cid (station_id session)
                              (- cost) ''Payment'' of
                         Inl e \<Rightarrow> (w1, cost, False)
                       | Inr w2 \<Rightarrow>
                           (case update_balance w2 (user_id session) (- cost) of
                              Inl e \<Rightarrow> (w2, cost, False)
                            | Inr w3 \<Rightarrow> (w3, cost, True)))))"

text \<open>\<open>end_session\<close>: writes the end fields of the persisted row, \<open>None\<close> when the
  row does not exist.\<close>

definition end_session ::
  "world \<Rightarrow> nat \<Rightarrow> real \<Rightarrow> real \<Rightarrow> (world \<times> charging_session) option" where
  "end_session w sid energy_consumed final_cost =
     (case find (\<lambda>r. cs_id r = sid) (charging_sessions w) of
        None \<Rightarrow> None
      | Some r \<Rightarrow>
          let r1 = r\<lparr>cs_end_on := Some (clock w), cs_energy_consumed := Some energy_consumed,
                     cs_cost := Some final_cost\<rparr>
          in Some (w\<lparr>charging_sessions :=
                       map (\<lambda>x. if cs_id x = sid then r1 else x) (charging_sessions w)\<rparr>, r1))"

text \<open>The reason that \<open>end_charging_session\<close> infers when none is given.  It is
  assigned to a local variable and never stored.\<close>

definition infer_reason :: "world \<Rightarrow> active_session \<Rightarrow> string option \<Rightarrow> string option" where
  "infer_reason w session reason =
     (case reason of
        Some r \<Rightarrow> Some r
      | None \<Rightarrow>
          if (case ports w (port_id session) of None \<Rightarrow> False
              | Some p \<Rightarrow> p_status p = ''Maintenance'') then Some ''port_maintenance''
          else if (case stations w (station_id session) of None \<Rightarrow> False
              | Some st \<Rightarrow> st_status st = ''Maintenance'') then Some ''station_maintenance''
          else None)"

text \<open>
  \<open>end_charging_session\<close>.  A missing registry entry raises \<open>KeyError\<close> into the
  outer handler; a missing \<open>car_id\<close> key raises it where the arguments of
  \<open>process_payment\<close> are evaluated.  The port that is released is the one of the
  persisted row; a port update that raises is logged and ignored.
\<close>

definition end_charging_session ::
  "world \<Rightarrow> nat \<Rightarrow> real \<Rightarrow> real \<Rightarrow> string option \<Rightarrow> string option \<Rightarrow> world \<times> bool" where
  "end_charging_session w sid final_energy final_cost reason dcode =
     (case active_sessions w sid of
        None \<Rightarrow> (w, False)
      | Some session \<Rightarrow>
          let reason1 = infer_reason w session reason;
              dcode1 = (case dcode of None \<Rightarrow> discount_code session | Some c \<Rightarrow> Some c)
          in case car_id session of
               None \<Rightarrow> (w, False)
             | Some cid \<Rightarrow>
                 (case process_payment w sid final_cost dcode1 of
                    (w1, cost, payment_success) \<Rightarrow>
                      if \<not> payment_success then (w1, False)
                      else case end_session w1 sid final_energy cost of
                             None \<Rightarrow> (w1, False)
                           | Some (w2, row) \<Rightarrow>
                               let w3 = (case update_status w2 (cs_port_id row) ''Available'' of
                                           Inl e \<Rightarrow> w2
                                         | Inr w' \<Rightarrow> w')
                               in (w3\<lparr>active_sessions := (active_sessions w3)(sid := None)\<rparr>,
                                   True)))"

text \<open>\<open>check_charging_availability\<close>: (can continue, reason).  An unknown port or
  station raises at \<open>.status\<close> and gives the reason system_error.\<close>

definition check_charging_availability :: "world \<Rightarrow> nat \<Rightarrow> bool \<times> string option" where
  "check_charging_availability w sid =
     (case active_sessions w sid of
        None \<Rightarrow> (False, Some ''session_not_found'')
      | Some session \<Rightarrow>
          (case ports w (port_id session) of
             None \<Rightarrow> (False, Some ''system_error'')
           | Some p \<Rightarrow>
               if p_status p = ''Maintenance'' then (False, Some ''port_maintenance'')
               else (case stations w (station_id session) of
                       None \<Rightarrow> (False, Some ''system_error'')
                     | Some st \<Rightarrow>
                         if st_status st = ''Maintenance''
                         then (False, Some ''station_maintenance'')
                         else (True, None))))"

section \<open>Telemetry loop (\<open>routes/websockets/charging.py\<close>)\<close>

text \<open>
  What the handler does is recorded as a list of actions: the messages it sends to the
  client and its calls of \<open>end_charging_session\<close> with their arguments and result.
  The numbers in a message are the handler's variables; the rounding of the JSON
  encoding is not modelled.
\<close>

datatype event =
    EvChargingStarted nat real real real real
  | EvChargingUpdate real real real real real
  | EvChargingInterrupted real real "string option" real
  | EvChargingCompleted real real string real
  | EvError real real
  | EvNoAccess
  | EvVehicleNotFound

datatype action = Emit event | Settle nat real real "string option" bool

text \<open>The answer of the meter to one HTTP request: status 200 with the \<open>kwh\<close> entry
  of the JSON body, another status, or a failed request.\<close>

datatype meter_response = MeterReading "real option" | MeterStatus nat | MeterRequestFailed

text \<open>The local variables of the handler that live across ticks.\<close>

record loop_vars =
  lv_current_kwh :: real
  lv_current_cost :: real
  lv_charging_power :: real
  lv_battery_temp :: real
  lv_battery_level :: "real option"

text \<open>What the environment contributes to one iteration: whether the client is still
  connected at the loop test, what the meter answers, and whether sending to the client
  succeeds (it raises when the peer is gone).\<close>

record tick_input =
  ti_connected :: bool
  ti_meter :: meter_response
  ti_send_ok :: bool

datatype outcome = Continue | Break | Raised py_error

text \<open>
  Lines 173 to 189 of the handler: the value read from the meter is assigned to
  \<open>energy_delta\<close>, a failed request is caught, and then \<open>energy_delta\<close> is
  assigned the constant 1 in every case.
\<close>

definition energy_delta :: "meter_response \<Rightarrow> real" where
  "energy_delta m =
     (let fetched = (case m of MeterReading k \<Rightarrow> k | MeterStatus c \<Rightarrow> None
                     | MeterRequestFailed \<Rightarrow> None)
      in 1)"

definition end_reason :: "real \<Rightarrow> real \<Rightarrow> real \<Rightarrow> real \<Rightarrow> string option" where
  "end_reason battery_level kwh battery_capacity target =
     (if battery_level \<ge> 100 then Some ''battery_full''
      else if kwh \<ge> battery_capacity then Some ''capacity_reached''
      else if kwh \<ge> target - 1 / 100 then Some ''target_reached''
      else None)"

text \<open>
  One iteration of the \<open>while\<close> loop.  \<open>session\<close> is the dictionary the handler
  fetched before the loop; the keys read from it here are written only by
  \<open>initialize_charging\<close> and \<open>start_charging\<close>.
\<close>

definition tick ::
  "world \<Rightarrow> nat \<Rightarrow> active_session \<Rightarrow> car \<Rightarrow> loop_vars \<Rightarrow> tick_input
     \<Rightarrow> world \<times> loop_vars \<times> action list \<times> outcome" where
  "tick w sid session vehicle v i =
     (case check_charging_availability w sid of
        (can_continue, interrupt_reason) \<Rightarrow>
          if \<not> can_continue then
            (if interrupt_reason = Some ''session_not_found'' then (w, v, [], Break)
             else
               (case end_charging_session w sid (lv_current_kwh v) (lv_current_cost v)
                       interrupt_reason None of
                  (w1, ok) \<Rightarrow>
                    let settled = Settle sid (lv_current_kwh v) (lv_current_cost v)
                                    interrupt_reason ok
                    in if ti_send_ok i
                       then (w1, v,
                             [settled,
                              Emit (EvChargingInterrupted (lv_current_kwh v) (lv_current_cost v)
                                      interrupt_reason
                                      (case lv_battery_level v of None \<Rightarrow> 0 | Some l \<Rightarrow> l))],
                             Break)
                       else (w1, v, [settled], Raised ConnectionClosed)))
          else
            let delta = energy_delta (ti_meter i);
                kwh = lv_current_kwh v + delta;
                temp = lv_battery_temp v + 1 / 10;
                pw = (if temp > 40 then lv_charging_power v * (9 / 10) else lv_charging_power v);
                v1 = v\<lparr>lv_current_kwh := kwh, lv_battery_temp := temp, lv_charging_power := pw\<rparr>;
                capacity = c_battery_capacity vehicle
            in if capacity = 0 then (w, v1, [], Raised ZeroDivisionError)
               else
                 let level = min 100 (kwh / capacity * 100);
                     cost = lv_current_cost v + delta * price_per_kwh session;
                     v2 = v1\<lparr>lv_battery_level := Some level, lv_current_cost := cost\<rparr>
                 in case target_kwh session of
                      None \<Rightarrow> (w, v2, [], Raised KeyError)
                    | Some target \<Rightarrow>
                        if \<not> ti_send_ok i then (w, v2, [], Raised ConnectionClosed)
                        else
                          let update = Emit (EvChargingUpdate kwh pw level temp cost);
                              w1 = fst (update_charging_status w sid kwh ''active'' pw cost)
                          in case end_reason level kwh capacity target of
                               None \<Rightarrow> (w1, v2, [update], Continue)
                             | Some r \<Rightarrow>
                                 let w2 = fst (update_charging_status w1 sid kwh ''done'' pw cost)
                                 in (case end_charging_session w2 sid kwh cost (Some r) None of
                                       (w3, ok) \<Rightarrow>
                                         (w3, v2,
                                          [update, Settle sid kwh cost (Some r) ok,
                                           Emit (EvChargingCompleted kwh cost r level)],
                                          Break)))"

text \<open>
  The loop runs while the client is connected; the list holds the environment's
  contribution to each iteration, and the connection is gone when it is used up.
  An exception leaves the loop through the handler, which tries to send an error
  message.
\<close>

fun charging_loop ::
  "world \<Rightarrow> nat \<Rightarrow> active_session \<Rightarrow> car \<Rightarrow> loop_vars \<Rightarrow> tick_input list
     \<Rightarrow> world \<times> loop_vars \<times> action list \<times> outcome" where
  "charging_loop w sid session vehicle v [] = (w, v, [], Break)"
| "charging_loop w sid session vehicle v (i # rest) =
     (if \<not> ti_connected i then (w, v, [], Break)
      else case tick w sid session vehicle v i of
        (w1, v1, acts, out) \<Rightarrow>
          (case out of
             Continue \<Rightarrow>
               (case charging_loop w1 sid session vehicle v1 rest of
                  (w2, v2, acts2, out2) \<Rightarrow> (w2, v2, acts @ acts2, out2))
           | Break \<Rightarrow> (w1, v1, acts, Break)
           | Raised e \<Rightarrow>
               (w1, v1,
                acts @ (if ti_send_ok i
                        then [Emit (EvError (lv_current_kwh v1) (lv_current_cost v1))] else []),
                Raised e)))"

text \<open>The \<open>finally\<close> block: the guard looks for a missing registry entry and for the
  statuses stopped and completed.\<close>

definition cleanup :: "world \<Rightarrow> nat \<Rightarrow> loop_vars \<Rightarrow> world \<times> action list" where
  "cleanup w sid v =
     (case get_session_status w sid of
        None \<Rightarrow> (w, [])
      | Some session_status \<Rightarrow>
          if charging_status session_status \<in> set [''stopped'', ''completed''] then (w, [])
          else
            let w1 = fst (update_charging_status w sid (lv_current_kwh v) ''interrupted''
                            (lv_charging_power v) (lv_current_cost v))
            in (case end_charging_session w1 sid (lv_current_kwh v) (lv_current_cost v)
                      (Some ''connection_lost'') None of
                  (w2, ok) \<Rightarrow>
                    (w2, [Settle sid (lv_current_kwh v) (lv_current_cost v)
                            (Some ''connection_lost'') ok])))"

text \<open>
  The body of \<open>charging_socket\<close> after the token was decoded to \<open>uid\<close>.
  \<open>start_send_ok\<close> tells whether the first message can be sent.  A registry entry
  without \<open>car_id\<close> raises before the \<open>try\<close> statement is entered, so that neither
  the loop nor the \<open>finally\<close> block runs.
\<close>

definition charging_socket ::
  "world \<Rightarrow> nat \<Rightarrow> nat \<Rightarrow> bool \<Rightarrow> tick_input list \<Rightarrow> world \<times> action list" where
  "charging_socket w sid uid start_send_ok inputs =
     (case get_session_status w sid of
        None \<Rightarrow> (w, [Emit EvNoAccess])
      | Some session \<Rightarrow>
          if user_id session \<noteq> uid then (w, [Emit EvNoAccess])
          else case car_id session of
            None \<Rightarrow> (w, [])
          | Some cid \<Rightarrow>
              (case cars w cid of
                 None \<Rightarrow> (w, [Emit EvVehicleNotFound])
               | Some vehicle \<Rightarrow>
                   let v0 = \<lparr>lv_current_kwh = 0, lv_current_cost = 0,
                             lv_charging_power = min (max_power session) (c_max_charging_power vehicle),
                             lv_battery_temp = 25, lv_battery_level = None\<rparr>;
                       run =
                         (case target_kwh session of
                            None \<Rightarrow>
                              (w, v0, (if start_send_ok then [Emit (EvError 0 0)] else []),
                               Raised KeyError)
                          | Some target \<Rightarrow>
                              if \<not> start_send_ok then (w, v0, [], Raised ConnectionClosed)
                              else
                                (case charging_loop w sid session vehicle v0 inputs of
                                   (w1, v1, acts, out) \<Rightarrow>
                                     (w1, v1,
                                      Emit (EvChargingStarted sid (lv_charging_power v0) target
                                              (price_per_kwh session) (c_battery_capacity vehicle))
                                        # acts, out)))
                   in (case run of
                         (w1, v1, acts, out) \<Rightarrow>
                           (case cleanup w1 sid v1 of
                              (w2, acts2) \<Rightarrow> (w2, acts @ acts2)))))"

section \<open>Example states\<close>

text \<open>A session of user 1 on port 1 of station 1 (2 per kWh), charging car 1 towards
  10 kWh, and a discount code of 10 percent that can be used once.  The example states
  are evaluated only at numbers that are doubles and whose differences and products by
  100 are doubles, so that float arithmetic rounds nothing there.\<close>

definition demo_session :: active_session where
  "demo_session =
     \<lparr>session_id = 1, user_id = 1, port_id = 1, station_id = 1, max_power = 22,
      price_per_kwh = 2, connector_type = ''Type2'', charging_status = ''charging'',
      started_on = 1000, current_kwh = 0, current_power = 0, current_cost = 0,
      car_id = Some 1, target_kwh = Some 10, estimated_cost = Some 20,
      discount_code = None, last_points_kwh = None\<rparr>"

definition demo_world :: world where
  "demo_world =
     \<lparr>ports = [1 \<mapsto> \<lparr>p_station_id = 1, p_max_power = 22, p_connector_type = ''Type2'',
                      p_status = ''InUse''\<rparr>],
      stations = [1 \<mapsto> \<lparr>st_status = ''active'', st_price_per_kwh = 2\<rparr>],
      users = [1 \<mapsto> \<lparr>u_balance = 100, u_points = Some 0\<rparr>],
      cars = [1 \<mapsto> \<lparr>c_battery_capacity = 50, c_max_charging_power = 11\<rparr>],
      discounts = [\<lparr>d_code = ''SAVE10'', d_value = 10, d_expiry_on = None,
                    d_usage_count = 0, d_max_uses = Some 1\<rparr>],
      charging_sessions = [\<lparr>cs_id = 1, cs_user_id = 1, cs_port_id = 1, cs_car_id = Some 1,
                            cs_started_on = 1000, cs_end_on = None, cs_energy_consumed = None,
                            cs_power_limit = Some 11, cs_cost = None\<rparr>],
      transactions = [],
      active_sessions = [1 \<mapsto> demo_session],
      clock = 2000,
      db_fails = (\<lambda>op. False),
      float_round = (\<lambda>x. x)\<rparr>"

lemmas demo_defs = demo_world_def demo_session_def

text \<open>The same state with a discount code stored on the session.\<close>

definition demo_world_code :: "string \<Rightarrow> world" where
  "demo_world_code code =
     demo_world\<lparr>active_sessions := [1 \<mapsto> demo_session\<lparr>discount_code := Some code\<rparr>]\<rparr>"

text \<open>One iteration in which the client is connected and the meter reports half a kWh.\<close>

definition demo_tick :: tick_input where
  "demo_tick = \<lparr>ti_connected = True, ti_meter = MeterReading (Some (1 / 2)), ti_send_ok = True\<rparr>"

lemmas settle_defs = end_charging_session_def process_payment_def truthy_code_def
  create_transaction_def update_balance_def end_session_def update_status_def
  apply_discount_def lower_def Let_def

lemmas loop_defs = charging_socket_def get_session_status_def cleanup_def tick_def
  check_charging_availability_def energy_delta_def end_reason_def update_charging_status_def
  add_points_def py_int_def infer_reason_def

text \<open>The variables of the handler after nine iterations of that session.\<close>

definition demo_vars :: loop_vars where
  "demo_vars = \<lparr>lv_current_kwh = 9, lv_current_cost = 18, lv_charging_power = 11,
                 lv_battery_temp = 25, lv_battery_level = Some 18\<rparr>"

definition demo_car :: car where
  "demo_car = \<lparr>c_battery_capacity = 50, c_max_charging_power = 11\<rparr>"

text \<open>A station with one free port, before anybody charges; user 1 has a balance of 5.\<close>

definition demo_idle_world :: world where
  "demo_idle_world =
     \<lparr>ports = [1 \<mapsto> \<lparr>p_station_id = 1, p_max_power = 22, p_connector_type = ''Type2'',
                      p_status = ''Available''\<rparr>],
      stations = [1 \<mapsto> \<lparr>st_status = ''active'', st_price_per_kwh = 2\<rparr>],
      users = [1 \<mapsto> \<lparr>u_balance = 5, u_points = Some 0\<rparr>,
               2 \<mapsto> \<lparr>u_balance = 100, u_points = Some 0\<rparr>],
      cars = [1 \<mapsto> \<lparr>c_battery_capacity = 50, c_max_charging_power = 11\<rparr>],
      discounts = [],
      charging_sessions = [],
      transactions = [],
      active_sessions = Map.empty,
      clock = 1000,
      db_fails = (\<lambda>op. False),
      float_round = (\<lambda>x. x)\<rparr>"





lemmas registry_defs = initialize_charging_def create_session_def update_status_def
  get_session_status_def start_charging_def release_port_def truthy_code_def Let_def

section \<open>Properties of the discount engine\<close>

lemma first_discount_lower_cong:
  "lower code2 = lower code \<Longrightarrow> first_discount ds code2 = first_discount ds code"
  by (induction ds) simp_all

lemma first_discount_increment_same:
  "first_discount (increment_usage ds code) code =
     map_option (\<lambda>d. d\<lparr>d_usage_count := d_usage_count d + 1\<rparr>) (first_discount ds code)"
  by (induction ds) simp_all

lemma first_discount_increment_other:
  "lower code2 \<noteq> lower code \<Longrightarrow>
     first_discount (increment_usage ds code) code2 = first_discount ds code2"
  by (induction ds) simp_all

text \<open>The three ways in which \<open>apply_discount\<close> returns.\<close>

lemma apply_discount_cases:
  assumes "apply_discount w amount code = Inr (w', amount', st)"
  shows "(st = NOT_FOUND \<and> first_discount (discounts w) code = None \<and> w' = w \<and> amount' = amount)
       \<or> (st = MAX_USES_REACHED \<and> w' = w \<and> amount' = amount)
       \<or> (st = SUCCESS \<and> w' = w\<lparr>discounts := increment_usage (discounts w) code\<rparr>
           \<and> \<not> db_fails w DiscountQuery
           \<and> (\<exists>d. first_discount (discounts w) code = Some d
                  \<and> (d_expiry_on d = None \<or> d_expiry_on d = Some 0)
                  \<and> (\<forall>m. d_max_uses d = Some m \<longrightarrow> int (d_usage_count d) < m)
                  \<and> amount' = amount * (1 - d_value d / 100)))"
  using assms
  by (auto simp: apply_discount_def split: if_splits option.splits)

lemma apply_discount_frame:
  assumes "apply_discount w amount code = Inr (w', amount', st)"
  shows "active_sessions w' = active_sessions w \<and> charging_sessions w' = charging_sessions w
       \<and> ports w' = ports w \<and> users w' = users w \<and> transactions w' = transactions w
       \<and> cars w' = cars w \<and> stations w' = stations w \<and> db_fails w' = db_fails w
       \<and> clock w' = clock w"
  using apply_discount_cases[OF assms] by auto

text \<open>
  C4.  Whenever \<open>apply_discount\<close> returns SUCCESS, the amount returned is
  \<open>amount * (1 - value / 100)\<close> for the value of the discount that the code names, and
  the usage count of that discount has grown by exactly one; with any other status the
  amount is the one passed in and nothing has changed.  A discount with \<open>max_uses = 1\<close>
  that was applied successfully answers MAX_USES_REACHED to every later application,
  for any amount and any spelling of the code.
\<close>

theorem apply_discount_correct:
  assumes "apply_discount w amount code = Inr (w', amount', st)"
  shows "(st = SUCCESS \<longrightarrow>
            (\<exists>d. first_discount (discounts w) code = Some d
               \<and> amount' = amount * (1 - d_value d / 100)
               \<and> first_discount (discounts w') code
                    = Some (d\<lparr>d_usage_count := d_usage_count d + 1\<rparr>)
               \<and> (d_max_uses d = Some 1 \<longrightarrow>
                    (\<forall>amount2 code2. lower code2 = lower code \<longrightarrow>
                       apply_discount w' amount2 code2 = Inr (w', amount2, MAX_USES_REACHED)))))
       \<and> (st \<noteq> SUCCESS \<longrightarrow> amount' = amount \<and> w' = w)"
proof (intro conjI impI)
  assume s: "st = SUCCESS"
  from apply_discount_cases[OF assms] s obtain d where
    w': "w' = w\<lparr>discounts := increment_usage (discounts w) code\<rparr>"
    and q: "\<not> db_fails w DiscountQuery"
    and d: "first_discount (discounts w) code = Some d"
    and e: "d_expiry_on d = None \<or> d_expiry_on d = Some 0"
    and a: "amount' = amount * (1 - d_value d / 100)"
    by auto
  have f: "first_discount (discounts w') code = Some (d\<lparr>d_usage_count := d_usage_count d + 1\<rparr>)"
    by (simp add: w' first_discount_increment_same d)
  have again: "apply_discount w' amount2 code2 = Inr (w', amount2, MAX_USES_REACHED)"
    if m: "d_max_uses d = Some 1" and l: "lower code2 = lower code" for amount2 code2
  proof -
    have "first_discount (discounts w') code2 = Some (d\<lparr>d_usage_count := d_usage_count d + 1\<rparr>)"
      using f first_discount_lower_cong[OF l] by simp
    moreover have "\<not> db_fails w' DiscountQuery" using q by (simp add: w')
    ultimately show ?thesis using e m
      by (auto simp: apply_discount_def)
  qed
  show "\<exists>d. first_discount (discounts w) code = Some d
               \<and> amount' = amount * (1 - d_value d / 100)
               \<and> first_discount (discounts w') code
                    = Some (d\<lparr>d_usage_count := d_usage_count d + 1\<rparr>)
               \<and> (d_max_uses d = Some 1 \<longrightarrow>
                    (\<forall>amount2 code2. lower code2 = lower code \<longrightarrow>
                       apply_discount w' amount2 code2 = Inr (w', amount2, MAX_USES_REACHED)))"
    using d a f again by blast
next
  assume "st \<noteq> SUCCESS"
  then show "amount' = amount" using apply_discount_cases[OF assms] by auto
next
  assume "st \<noteq> SUCCESS"
  then show "w' = w" using apply_discount_cases[OF assms] by auto
qed

theorem apply_discount_correct_witness:
  "apply_discount demo_world 200 ''save10''
     = Inr (demo_world\<lparr>discounts := increment_usage (discounts demo_world) ''save10''\<rparr>,
            180, SUCCESS)
   \<and> apply_discount (demo_world\<lparr>discounts := increment_usage (discounts demo_world) ''save10''\<rparr>)
        50 ''Save10''
     = Inr (demo_world\<lparr>discounts := increment_usage (discounts demo_world) ''save10''\<rparr>,
            50, MAX_USES_REACHED)"
proof -
  let ?w' = "demo_world\<lparr>discounts := increment_usage (discounts demo_world) ''save10''\<rparr>"
  have run: "apply_discount demo_world 200 ''save10'' = Inr (?w', 180, SUCCESS)"
    by (simp add: apply_discount_def demo_world_def lower_def)
  have d: "first_discount (discounts demo_world) ''save10''
      = Some \<lparr>d_code = ''SAVE10'', d_value = 10, d_expiry_on = None,
               d_usage_count = 0, d_max_uses = Some 1\<rparr>"
    by (simp add: demo_world_def lower_def)
  have l: "lower ''Save10'' = lower ''save10''"
    by (simp add: lower_def)
  from apply_discount_correct[OF run] d l
  have "apply_discount ?w' 50 ''Save10'' = Inr (?w', 50, MAX_USES_REACHED)"
    by simp
  with run show ?thesis by simp
qed

section \<open>Properties of settlement\<close>

lemma process_payment_frame:
  assumes "process_payment w sid final_cost dcode = (w', cost, ok)"
  shows "active_sessions w' = active_sessions w \<and> charging_sessions w' = charging_sessions w
       \<and> ports w' = ports w \<and> cars w' = cars w \<and> stations w' = stations w
       \<and> db_fails w' = db_fails w \<and> clock w' = clock w"
  using assms
  by (auto simp: process_payment_def create_transaction_def update_balance_def
      split: option.splits sum.splits if_splits prod.splits dest!: apply_discount_frame)

text \<open>
  C3.  When the payment step of a settlement of a registered session fails, the call
  returns False, the registry is as before (the session is still in it), the persisted
  rows are as before (no end timestamp, energy or cost was written), and no port
  status was changed.
\<close>

theorem payment_failure_keeps_session:
  assumes "active_sessions w sid = Some session"
    and "snd (snd (process_payment w sid final_cost
            (case dcode of None \<Rightarrow> discount_code session | Some c \<Rightarrow> Some c))) = False"
  shows "snd (end_charging_session w sid final_energy final_cost reason dcode) = False
       \<and> active_sessions (fst (end_charging_session w sid final_energy final_cost reason dcode))
           = active_sessions w
       \<and> charging_sessions (fst (end_charging_session w sid final_energy final_cost reason dcode))
           = charging_sessions w
       \<and> ports (fst (end_charging_session w sid final_energy final_cost reason dcode)) = ports w"
proof (cases "car_id session")
  case None
  then show ?thesis using assms(1) by (simp add: end_charging_session_def)
next
  case (Some cid)
  obtain w1 cost ok where p: "process_payment w sid final_cost
            (case dcode of None \<Rightarrow> discount_code session | Some c \<Rightarrow> Some c) = (w1, cost, ok)"
    by (metis prod_cases3)
  with assms(2) have "\<not> ok" by simp
  with p Some assms(1)
  have "end_charging_session w sid final_energy final_cost reason dcode = (w1, False)"
    by (simp add: end_charging_session_def)
  with process_payment_frame[OF p] show ?thesis by simp
qed

theorem payment_failure_keeps_session_witness:
  "snd (end_charging_session (demo_world\<lparr>db_fails := (\<lambda>op. op = TransactionCommit)\<rparr>)
          1 10 20 (Some ''user_stopped'') None) = False
   \<and> active_sessions (fst (end_charging_session
          (demo_world\<lparr>db_fails := (\<lambda>op. op = TransactionCommit)\<rparr>)
          1 10 20 (Some ''user_stopped'') None)) 1 = Some demo_session
   \<and> ports (fst (end_charging_session
          (demo_world\<lparr>db_fails := (\<lambda>op. op = TransactionCommit)\<rparr>)
          1 10 20 (Some ''user_stopped'') None)) = ports demo_world"
proof -
  let ?w = "demo_world\<lparr>db_fails := (\<lambda>op. op = TransactionCommit)\<rparr>"
  have reg: "active_sessions ?w 1 = Some demo_session"
    by (simp add: demo_world_def)
  have pay: "snd (snd (process_payment ?w 1 20
            (case None of None \<Rightarrow> discount_code demo_session | Some c \<Rightarrow> Some c))) = False"
    by (simp add: process_payment_def demo_defs truthy_code_def create_transaction_def)
  from payment_failure_keeps_session[OF reg pay, of 10 "Some ''user_stopped''"]
  show ?thesis by (simp add: demo_world_def)
qed

text \<open>
  C10.  \<open>end_charging_session\<close> for a session id that is not in the registry returns
  False and leaves the whole world as it is.  A call that succeeds removes the id from
  the registry, so every later call for that id fails without any effect: a session is
  settled successfully at most once.
\<close>

theorem end_charging_session_at_most_once:
  "(active_sessions w sid = None \<longrightarrow>
      end_charging_session w sid final_energy final_cost reason dcode = (w, False))
   \<and> (end_charging_session w sid final_energy final_cost reason dcode = (w', True) \<longrightarrow>
        active_sessions w' sid = None
      \<and> end_charging_session w' sid energy2 cost2 reason2 dcode2 = (w', False))"
proof -
  have a: "end_charging_session w0 sid e c r d = (w0, False)" if "active_sessions w0 sid = None"
    for w0 e c r d
    using that by (simp add: end_charging_session_def)
  have b: "active_sessions w' sid = None"
    if "end_charging_session w sid final_energy final_cost reason dcode = (w', True)"
    using that
    by (auto simp: end_charging_session_def Let_def split: option.splits prod.splits if_splits)
  show ?thesis using a b by blast
qed

theorem end_charging_session_at_most_once_witness:
  "active_sessions demo_world 7 = None
   \<and> end_charging_session demo_world 7 10 20 (Some ''user_stopped'') None = (demo_world, False)
   \<and> snd (end_charging_session demo_world 1 10 20 (Some ''user_stopped'') None) = True
   \<and> end_charging_session
        (fst (end_charging_session demo_world 1 10 20 (Some ''user_stopped'') None))
        1 10 20 (Some ''connection_lost'') None
       = (fst (end_charging_session demo_world 1 10 20 (Some ''user_stopped'') None), False)"
proof -
  have none: "active_sessions demo_world 7 = None"
    by (simp add: demo_world_def)
  have ok: "snd (end_charging_session demo_world 1 10 20 (Some ''user_stopped'') None) = True"
    by (simp add: end_charging_session_def process_payment_def demo_defs truthy_code_def
        create_transaction_def update_balance_def end_session_def update_status_def
        infer_reason_def Let_def)
  then have run: "end_charging_session demo_world 1 10 20 (Some ''user_stopped'') None
      = (fst (end_charging_session demo_world 1 10 20 (Some ''user_stopped'') None), True)"
    by (simp add: prod_eq_iff)
  from end_charging_session_at_most_once[of demo_world 7 10 20 "Some ''user_stopped''" None]
    none
  have first: "end_charging_session demo_world 7 10 20 (Some ''user_stopped'') None
      = (demo_world, False)" by blast
  from end_charging_session_at_most_once[of demo_world 1 10 20 "Some ''user_stopped''" None
      "fst (end_charging_session demo_world 1 10 20 (Some ''user_stopped'') None)"
      10 20 "Some ''connection_lost''" None] run
  have second: "end_charging_session
        (fst (end_charging_session demo_world 1 10 20 (Some ''user_stopped'') None))
        1 10 20 (Some ''connection_lost'') None
       = (fst (end_charging_session demo_world 1 10 20 (Some ''user_stopped'') None), False)"
    by blast
  show ?thesis using none ok first second by blast
qed

lemma end_charging_session_no_code:
  assumes "active_sessions w sid = Some session"
    and "truthy_code (case dcode of None \<Rightarrow> discount_code session | Some c \<Rightarrow> Some c) = Some code"
    and "apply_discount w final_cost code = Inr (w1, a, st)" and "st \<noteq> SUCCESS"
  shows "end_charging_session w sid final_energy final_cost reason dcode
       = end_charging_session w sid final_energy final_cost reason (Some [])"
proof -
  from apply_discount_cases[OF assms(3)] assms(4) have "w1 = w" by auto
  with assms have "process_payment w sid final_cost
        (case dcode of None \<Rightarrow> discount_code session | Some c \<Rightarrow> Some c)
      = process_payment w sid final_cost (Some [])"
    by (simp add: process_payment_def truthy_code_def)
  with assms(1) show ?thesis
    by (cases "car_id session") (simp_all add: end_charging_session_def Let_def)
qed

lemma end_charging_session_discount_raises:
  assumes "active_sessions w sid = Some session"
    and "truthy_code (case dcode of None \<Rightarrow> discount_code session | Some c \<Rightarrow> Some c) = Some code"
    and "apply_discount w final_cost code = Inl e"
  shows "end_charging_session w sid final_energy final_cost reason dcode = (w, False)"
  using assms
  by (simp add: end_charging_session_def process_payment_def Let_def split: option.splits)

lemma end_charging_session_undiscounted:
  assumes "active_sessions w sid = Some session"
    and "end_charging_session w sid final_energy final_cost reason (Some []) = (w', True)"
  shows "\<exists>cid. car_id session = Some cid \<and> transactions w' = transactions w @
           [\<lparr>t_user_id = user_id session, t_car_id = cid, t_station_id = station_id session,
             t_amount = - final_cost, t_type = ''Payment''\<rparr>]"
  using assms
  by (auto simp: end_charging_session_def process_payment_def Let_def truthy_code_def
      create_transaction_def update_balance_def end_session_def update_status_def
      split: option.splits if_splits sum.splits)

text \<open>
  C6 (amended).  In a settlement with a discount code present, a discount application
  that returns a status other than SUCCESS (the code is unknown, or its uses are
  exhausted) lets the settlement proceed exactly as a settlement without any code, which
  charges the undiscounted final cost.  An error raised while the discount is applied
  makes the payment step fail: the settlement returns False and changes nothing.
\<close>

theorem discount_failure_in_settlement:
  assumes "active_sessions w sid = Some session"
    and "truthy_code (case dcode of None \<Rightarrow> discount_code session | Some c \<Rightarrow> Some c) = Some code"
  shows "(\<forall>w1 a st. apply_discount w final_cost code = Inr (w1, a, st) \<and> st \<noteq> SUCCESS \<longrightarrow>
            end_charging_session w sid final_energy final_cost reason dcode
              = end_charging_session w sid final_energy final_cost reason (Some []))
       \<and> (\<forall>w'. end_charging_session w sid final_energy final_cost reason (Some []) = (w', True) \<longrightarrow>
            (\<exists>cid. car_id session = Some cid \<and> transactions w' = transactions w @
               [\<lparr>t_user_id = user_id session, t_car_id = cid, t_station_id = station_id session,
                 t_amount = - final_cost, t_type = ''Payment''\<rparr>]))
       \<and> (\<forall>e. apply_discount w final_cost code = Inl e \<longrightarrow>
            end_charging_session w sid final_energy final_cost reason dcode = (w, False))"
  using end_charging_session_no_code[OF assms] end_charging_session_discount_raises[OF assms]
    end_charging_session_undiscounted[OF assms(1)]
  by blast

text \<open>
  C6 as stated fails: with a code stored on the session and a discount store that
  raises, the settlement does not proceed with the undiscounted cost but returns False.
\<close>

theorem discount_error_blocks_settlement_counterexample:
  "truthy_code (discount_code (demo_session\<lparr>discount_code := Some ''SAVE10''\<rparr>)) = Some ''SAVE10''
   \<and> apply_discount ((demo_world_code ''SAVE10'')\<lparr>db_fails := (\<lambda>op. op = DiscountQuery)\<rparr>)
         20 ''SAVE10'' = Inl DatabaseError
   \<and> end_charging_session ((demo_world_code ''SAVE10'')\<lparr>db_fails := (\<lambda>op. op = DiscountQuery)\<rparr>)
         1 10 20 (Some ''target_reached'') None
       = ((demo_world_code ''SAVE10'')\<lparr>db_fails := (\<lambda>op. op = DiscountQuery)\<rparr>, False)"
  by (simp add: settle_defs demo_world_code_def demo_defs)

text \<open>A discount that carries an expiry timestamp raises in the same way.\<close>

lemma expired_discount_blocks_settlement:
  "apply_discount
     ((demo_world_code ''SAVE10'')\<lparr>discounts :=
         [\<lparr>d_code = ''SAVE10'', d_value = 10, d_expiry_on = Some 1767225600000,
           d_usage_count = 0, d_max_uses = Some 1\<rparr>]\<rparr>) 20 ''SAVE10'' = Inl TypeError
   \<and> snd (end_charging_session
     ((demo_world_code ''SAVE10'')\<lparr>discounts :=
         [\<lparr>d_code = ''SAVE10'', d_value = 10, d_expiry_on = Some 1767225600000,
           d_usage_count = 0, d_max_uses = Some 1\<rparr>]\<rparr>) 1 10 20 (Some ''target_reached'') None)
     = False"
  by (simp add: settle_defs demo_world_code_def demo_defs)

theorem discount_failure_in_settlement_witness:
  "apply_discount (demo_world_code ''NOPE'') 20 ''NOPE'' = Inr (demo_world_code ''NOPE'', 20, NOT_FOUND)
   \<and> end_charging_session (demo_world_code ''NOPE'') 1 10 20 (Some ''target_reached'') None
       = end_charging_session (demo_world_code ''NOPE'') 1 10 20 (Some ''target_reached'') (Some [])
   \<and> snd (end_charging_session (demo_world_code ''NOPE'') 1 10 20 (Some ''target_reached'') None)
       = True
   \<and> transactions (fst (end_charging_session (demo_world_code ''NOPE'') 1 10 20
         (Some ''target_reached'') None))
       = [\<lparr>t_user_id = 1, t_car_id = 1, t_station_id = 1, t_amount = - 20, t_type = ''Payment''\<rparr>]
   \<and> end_charging_session ((demo_world_code ''SAVE10'')\<lparr>db_fails := (\<lambda>op. op = DiscountQuery)\<rparr>)
         1 10 20 (Some ''target_reached'') None
       = ((demo_world_code ''SAVE10'')\<lparr>db_fails := (\<lambda>op. op = DiscountQuery)\<rparr>, False)"
proof -
  let ?w = "demo_world_code ''NOPE''"
  let ?s = "demo_session\<lparr>discount_code := Some ''NOPE''\<rparr>"
  let ?b = "(demo_world_code ''SAVE10'')\<lparr>db_fails := (\<lambda>op. op = DiscountQuery)\<rparr>"
  have reg: "active_sessions ?w 1 = Some ?s"
    by (simp add: demo_world_code_def)
  have code: "truthy_code (case None of None \<Rightarrow> discount_code ?s | Some c \<Rightarrow> Some c) = Some ''NOPE''"
    by (simp add: truthy_code_def)
  have nf: "apply_discount ?w 20 ''NOPE'' = Inr (?w, 20, NOT_FOUND)"
    by (simp add: apply_discount_def demo_world_code_def demo_defs lower_def)
  have ok: "snd (end_charging_session ?w 1 10 20 (Some ''target_reached'') (Some [])) = True"
    by (simp add: settle_defs demo_world_code_def demo_defs)
  then have run: "end_charging_session ?w 1 10 20 (Some ''target_reached'') (Some [])
      = (fst (end_charging_session ?w 1 10 20 (Some ''target_reached'') (Some [])), True)"
    by (simp add: prod_eq_iff)
  note inst = discount_failure_in_settlement[OF reg code, of 20 10 "Some ''target_reached''"]
  from inst nf
  have same: "end_charging_session ?w 1 10 20 (Some ''target_reached'') None
       = end_charging_session ?w 1 10 20 (Some ''target_reached'') (Some [])"
    by blast
  from inst run
  have tr: "transactions (fst (end_charging_session ?w 1 10 20 (Some ''target_reached'') (Some [])))
      = transactions ?w @
        [\<lparr>t_user_id = user_id ?s, t_car_id = 1, t_station_id = station_id ?s,
          t_amount = - 20, t_type = ''Payment''\<rparr>]"
    by (auto simp: demo_session_def)
  have regb: "active_sessions ?b 1 = Some (demo_session\<lparr>discount_code := Some ''SAVE10''\<rparr>)"
    by (simp add: demo_world_code_def)
  have codeb: "truthy_code (case None of None \<Rightarrow> discount_code (demo_session\<lparr>discount_code := Some ''SAVE10''\<rparr>)
                  | Some c \<Rightarrow> Some c) = Some ''SAVE10''"
    by (simp add: truthy_code_def)
  have raise: "apply_discount ?b 20 ''SAVE10'' = Inl DatabaseError"
    by (simp add: apply_discount_def)
  from discount_failure_in_settlement[OF regb codeb, of 20 10 "Some ''target_reached''"] raise
  have fail: "end_charging_session ?b 1 10 20 (Some ''target_reached'') None = (?b, False)"
    by blast
  show ?thesis using nf same ok tr fail
    by (simp add: demo_world_code_def demo_defs)
qed

section \<open>Properties of the telemetry loop\<close>


lemma update_charging_status_sets:
  assumes "active_sessions w sid = Some s0"
  shows "\<exists>s. active_sessions (fst (update_charging_status w sid kwh st pw cost)) sid = Some s
           \<and> charging_status s = st \<and> current_kwh s = kwh \<and> current_cost s = cost"
  using assms
  by (simp add: update_charging_status_def add_points_def Let_def split: option.splits)



















lemma check_available_registered:
  "check_charging_availability w sid = (True, r0) \<Longrightarrow> active_sessions w sid \<noteq> None"
  by (auto simp: check_charging_availability_def split: option.splits if_splits)

lemma tick_available:
  assumes "check_charging_availability w sid = (True, r0)"
    and "c_battery_capacity vehicle \<noteq> 0"
    and "target_kwh session = Some target"
    and "ti_send_ok i"
  shows "tick w sid session vehicle v i =
     (let delta = energy_delta (ti_meter i);
          kwh = lv_current_kwh v + delta;
          temp = lv_battery_temp v + 1 / 10;
          pw = (if temp > 40 then lv_charging_power v * (9 / 10) else lv_charging_power v);
          capacity = c_battery_capacity vehicle;
          level = min 100 (kwh / capacity * 100);
          cost = lv_current_cost v + delta * price_per_kwh session;
          v2 = v\<lparr>lv_current_kwh := kwh, lv_battery_temp := temp, lv_charging_power := pw,
                 lv_battery_level := Some level, lv_current_cost := cost\<rparr>;
          update = Emit (EvChargingUpdate kwh pw level temp cost);
          w1 = fst (update_charging_status w sid kwh ''active'' pw cost)
      in case end_reason level kwh capacity target of
           None \<Rightarrow> (w1, v2, [update], Continue)
         | Some r \<Rightarrow>
             let w2 = fst (update_charging_status w1 sid kwh ''done'' pw cost)
             in (fst (end_charging_session w2 sid kwh cost (Some r) None), v2,
                 [update, Settle sid kwh cost (Some r)
                            (snd (end_charging_session w2 sid kwh cost (Some r) None)),
                  Emit (EvChargingCompleted kwh cost r level)], Break))"
  using assms
  by (simp add: tick_def Let_def split: option.splits prod.splits)

text \<open>
  C7.  In an iteration that passes the availability check and sends its update, the
  reason for ending is battery_full when the battery level is at least 100, otherwise
  capacity_reached when the energy is at least the battery capacity, otherwise
  target_reached when the energy is at least the target minus 0.01.  With any of these
  reasons the registry entry gets the status done, \<open>end_charging_session\<close> is called in
  that state with the reason, the event charging_completed with the reason is sent
  after the update, and the loop is left.  With none of them the loop goes on, the
  status being active and nothing settled.
\<close>

theorem tick_termination_priority:
  assumes "check_charging_availability w sid = (True, r0)"
    and "c_battery_capacity vehicle \<noteq> 0"
    and "target_kwh session = Some target"
    and "ti_send_ok i"
    and "kwh = lv_current_kwh v + energy_delta (ti_meter i)"
    and "cost = lv_current_cost v + energy_delta (ti_meter i) * price_per_kwh session"
    and "level = min 100 (kwh / c_battery_capacity vehicle * 100)"
    and "tick w sid session vehicle v i = (w', v', acts, out)"
  shows "(\<forall>r. (100 \<le> level \<and> r = ''battery_full'')
            \<or> (level < 100 \<and> c_battery_capacity vehicle \<le> kwh \<and> r = ''capacity_reached'')
            \<or> (level < 100 \<and> kwh < c_battery_capacity vehicle \<and> target - 1 / 100 \<le> kwh
                 \<and> r = ''target_reached'')
          \<longrightarrow> out = Break
            \<and> (\<exists>w2 s ok upd.
                   active_sessions w2 sid = Some s \<and> charging_status s = ''done''
                 \<and> current_kwh s = kwh \<and> current_cost s = cost
                 \<and> end_charging_session w2 sid kwh cost (Some r) None = (w', ok)
                 \<and> acts = [Emit upd, Settle sid kwh cost (Some r) ok,
                            Emit (EvChargingCompleted kwh cost r level)]))
       \<and> (level < 100 \<and> kwh < c_battery_capacity vehicle \<and> kwh < target - 1 / 100
          \<longrightarrow> out = Continue \<and> (\<exists>upd. acts = [Emit upd])
            \<and> (\<exists>s. active_sessions w' sid = Some s \<and> charging_status s = ''active''))"
proof -
  let ?pw = "if lv_battery_temp v + 1 / 10 > 40 then lv_charging_power v * (9 / 10)
             else lv_charging_power v"
  let ?w1 = "fst (update_charging_status w sid kwh ''active'' ?pw cost)"
  let ?w2 = "fst (update_charging_status ?w1 sid kwh ''done'' ?pw cost)"
  let ?upd = "EvChargingUpdate kwh ?pw level (lv_battery_temp v + 1 / 10) cost"
  from check_available_registered[OF assms(1)] obtain s0 where
    s0: "active_sessions w sid = Some s0" by auto
  from update_charging_status_sets[OF s0, of kwh "''active''" ?pw cost] obtain s1 where
    s1: "active_sessions ?w1 sid = Some s1" "charging_status s1 = ''active''" by auto
  from update_charging_status_sets[OF s1(1), of kwh "''done''" ?pw cost] obtain s2 where
    s2: "active_sessions ?w2 sid = Some s2" "charging_status s2 = ''done''"
      "current_kwh s2 = kwh" "current_cost s2 = cost" by auto
  note t = tick_available[OF assms(1-4), of v, unfolded Let_def,
      folded assms(5), folded assms(6), folded assms(7)]
  have stop: "out = Break
            \<and> (\<exists>w2 s ok upd.
                   active_sessions w2 sid = Some s \<and> charging_status s = ''done''
                 \<and> current_kwh s = kwh \<and> current_cost s = cost
                 \<and> end_charging_session w2 sid kwh cost (Some r) None = (w', ok)
                 \<and> acts = [Emit upd, Settle sid kwh cost (Some r) ok,
                            Emit (EvChargingCompleted kwh cost r level)])"
    if r: "end_reason level kwh (c_battery_capacity vehicle) target = Some r" for r
  proof -
    from t r assms(8) have o: "out = Break"
      and w': "w' = fst (end_charging_session ?w2 sid kwh cost (Some r) None)"
      and a: "acts = [Emit ?upd, Settle sid kwh cost (Some r)
                            (snd (end_charging_session ?w2 sid kwh cost (Some r) None)),
                  Emit (EvChargingCompleted kwh cost r level)]"
      by simp_all
    have "end_charging_session ?w2 sid kwh cost (Some r) None
        = (w', snd (end_charging_session ?w2 sid kwh cost (Some r) None))"
      by (simp add: w')
    with s2 a o show ?thesis by blast
  qed
  have go: "out = Continue \<and> (\<exists>upd. acts = [Emit upd])
            \<and> (\<exists>s. active_sessions w' sid = Some s \<and> charging_status s = ''active'')"
    if n: "end_reason level kwh (c_battery_capacity vehicle) target = None"
  proof -
    from t n assms(8) have "out = Continue" "w' = ?w1" "acts = [Emit ?upd]"
      by simp_all
    with s1 show ?thesis by blast
  qed
  show ?thesis
  proof (intro conjI allI impI)
    fix r
    assume "(100 \<le> level \<and> r = ''battery_full'')
            \<or> (level < 100 \<and> c_battery_capacity vehicle \<le> kwh \<and> r = ''capacity_reached'')
            \<or> (level < 100 \<and> kwh < c_battery_capacity vehicle \<and> target - 1 / 100 \<le> kwh
                 \<and> r = ''target_reached'')"
    then have "end_reason level kwh (c_battery_capacity vehicle) target = Some r"
      by (auto simp: end_reason_def)
    from stop[OF this] show "out = Break" and "\<exists>w2 s ok upd.
                   active_sessions w2 sid = Some s \<and> charging_status s = ''done''
                 \<and> current_kwh s = kwh \<and> current_cost s = cost
                 \<and> end_charging_session w2 sid kwh cost (Some r) None = (w', ok)
                 \<and> acts = [Emit upd, Settle sid kwh cost (Some r) ok,
                            Emit (EvChargingCompleted kwh cost r level)]"
      by simp_all
  next
    assume "level < 100 \<and> kwh < c_battery_capacity vehicle \<and> kwh < target - 1 / 100"
    then have "end_reason level kwh (c_battery_capacity vehicle) target = None"
      by (auto simp: end_reason_def)
    from go[OF this] show "out = Continue" and "\<exists>upd. acts = [Emit upd]"
      and "\<exists>s. active_sessions w' sid = Some s \<and> charging_status s = ''active''"
      by simp_all
  qed
qed

theorem tick_termination_priority_witness:
  "check_charging_availability demo_world 1 = (True, None)
   \<and> snd (snd (snd (tick demo_world 1 demo_session demo_car demo_vars demo_tick))) = Break
   \<and> (\<exists>ok upd. fst (snd (snd (tick demo_world 1 demo_session demo_car demo_vars demo_tick)))
         = [Emit upd, Settle 1 10 20 (Some ''target_reached'') ok,
            Emit (EvChargingCompleted 10 20 ''target_reached'' 20)])"
proof -
  let ?t = "tick demo_world 1 demo_session demo_car demo_vars demo_tick"
  have h1: "check_charging_availability demo_world 1 = (True, None)"
    by (simp add: check_charging_availability_def demo_defs)
  have h2: "c_battery_capacity demo_car \<noteq> 0" by (simp add: demo_car_def)
  have h3: "target_kwh demo_session = Some 10" by (simp add: demo_session_def)
  have h4: "ti_send_ok demo_tick" by (simp add: demo_tick_def)
  have h5: "(10::real) = lv_current_kwh demo_vars + energy_delta (ti_meter demo_tick)"
    by (simp add: demo_vars_def energy_delta_def)
  have h6: "(20::real) = lv_current_cost demo_vars
      + energy_delta (ti_meter demo_tick) * price_per_kwh demo_session"
    by (simp add: demo_vars_def energy_delta_def demo_session_def)
  have h7: "(20::real) = min 100 (10 / c_battery_capacity demo_car * 100)"
    by (simp add: demo_car_def)
  have h8: "?t = (fst ?t, fst (snd ?t), fst (snd (snd ?t)), snd (snd (snd ?t)))"
    by simp
  have c: "(100 \<le> (20::real) \<and> ''target_reached'' = ''battery_full'')
            \<or> ((20::real) < 100 \<and> c_battery_capacity demo_car \<le> 10
                 \<and> ''target_reached'' = ''capacity_reached'')
            \<or> ((20::real) < 100 \<and> 10 < c_battery_capacity demo_car \<and> (10::real) - 1 / 100 \<le> 10
                 \<and> ''target_reached'' = ''target_reached'')"
    by (simp add: demo_car_def)
  from tick_termination_priority[OF h1 h2 h3 h4 h5 h6 h7 h8] c
  have "snd (snd (snd ?t)) = Break
      \<and> (\<exists>w2 s ok upd.
             active_sessions w2 1 = Some s \<and> charging_status s = ''done''
           \<and> current_kwh s = 10 \<and> current_cost s = 20
           \<and> end_charging_session w2 1 10 20 (Some ''target_reached'') None = (fst ?t, ok)
           \<and> fst (snd (snd ?t)) = [Emit upd, Settle 1 10 20 (Some ''target_reached'') ok,
                          Emit (EvChargingCompleted 10 20 ''target_reached'' 20)])"
    by blast
  with h1 show ?thesis by blast
qed

text \<open>
  C8 fails on the code.  The meter answers with 0.5 kWh; the energy added in that
  iteration is nevertheless 1 kWh and the cost that of 1 kWh, because the value read is
  overwritten by the constant.
\<close>

theorem meter_reading_overwritten:
  "ti_meter demo_tick = MeterReading (Some (1 / 2))
   \<and> energy_delta (ti_meter demo_tick) = 1
   \<and> lv_current_kwh (fst (snd (tick demo_world 1 demo_session demo_car
        \<lparr>lv_current_kwh = 0, lv_current_cost = 0, lv_charging_power = 11,
          lv_battery_temp = 25, lv_battery_level = None\<rparr> demo_tick))) = 1
   \<and> lv_current_cost (fst (snd (tick demo_world 1 demo_session demo_car
        \<lparr>lv_current_kwh = 0, lv_current_cost = 0, lv_charging_power = 11,
          lv_battery_temp = 25, lv_battery_level = None\<rparr> demo_tick))) = 2"
  by (simp add: loop_defs demo_defs demo_tick_def demo_car_def Let_def)

section \<open>Loyalty points\<close>











section \<open>Properties of the session registry\<close>

text \<open>The two failure returns of \<open>start_charging\<close> that release the port.\<close>

lemma release_port_result:
  "\<exists>w2 c m. release_port w1 pid cost msg = (w2, False, c, m)
     \<and> active_sessions w2 = active_sessions w1
     \<and> charging_sessions w2 = charging_sessions w1
     \<and> (ports w1 pid = None \<longrightarrow> c = cost \<and> m = msg \<and> ports w2 = ports w1)
     \<and> (\<forall>p. ports w1 pid = Some p \<and> \<not> db_fails w1 PortCommit \<longrightarrow>
            c = cost \<and> m = msg
          \<and> ports w2 = (ports w1)(pid \<mapsto> p\<lparr>p_status := ''Available''\<rparr>))
     \<and> (\<forall>p. ports w1 pid = Some p \<and> db_fails w1 PortCommit \<longrightarrow>
            c = 0 \<and> m = SystemError DatabaseError \<and> ports w2 = ports w1)"
  by (cases "ports w1 pid") (simp_all add: release_port_def update_status_def)

text \<open>
  C5, as the code has it.  Take a registered session owned by the caller, whose user
  exists.  When no discount code is given, or the code is applied with SUCCESS, and the
  balance is below the estimated cost (target energy times price, after the discount),
  \<open>start_charging\<close> writes Available to the port of the session and returns failure with
  the estimated cost and the message of insufficient balance.  When the code is given and
  rejected (any status other than SUCCESS), the call fails in the same way with the
  message of the discount error, whatever the balance.  In both cases a failing write of
  the port turns the return into the system error with cost 0, and the port keeps its
  status.  When applying the discount raises, the call returns the system error with
  cost 0 and nothing is changed.  In every case the registry and the persisted rows are
  unchanged: the session does not get the status charging.
\<close>

theorem start_charging_insufficient_balance:
  assumes "get_session_status w sid = Some session" and "user_id session = uid"
    and "users w uid = Some u"
  shows "(\<forall>w1 cost msg.
            (truthy_code dcode = None \<and> w1 = w \<and> cost = target * price_per_kwh session
               \<and> u_balance u < cost \<and> msg = InsufficientBalance cost (u_balance u))
          \<or> (\<exists>c. truthy_code dcode = Some c
                 \<and> apply_discount w (target * price_per_kwh session) c = Inr (w1, cost, SUCCESS)
                 \<and> u_balance u < cost \<and> msg = InsufficientBalance cost (u_balance u))
          \<or> (\<exists>c st. truthy_code dcode = Some c
                 \<and> apply_discount w (target * price_per_kwh session) c = Inr (w1, cost, st)
                 \<and> st \<noteq> SUCCESS \<and> msg = DiscountError st)
          \<longrightarrow> (\<exists>w2 c m. start_charging w sid uid target cid dcode = (w2, False, c, m)
                 \<and> active_sessions w2 = active_sessions w
                 \<and> charging_sessions w2 = charging_sessions w
                 \<and> (ports w (port_id session) = None \<longrightarrow>
                        c = cost \<and> m = msg \<and> ports w2 = ports w)
                 \<and> (\<forall>p. ports w (port_id session) = Some p \<and> \<not> db_fails w PortCommit \<longrightarrow>
                        c = cost \<and> m = msg
                      \<and> ports w2 = (ports w)(port_id session \<mapsto> p\<lparr>p_status := ''Available''\<rparr>))
                 \<and> (\<forall>p. ports w (port_id session) = Some p \<and> db_fails w PortCommit \<longrightarrow>
                        c = 0 \<and> m = SystemError DatabaseError \<and> ports w2 = ports w)))
       \<and> (\<forall>c e. truthy_code dcode = Some c
                 \<and> apply_discount w (target * price_per_kwh session) c = Inl e
          \<longrightarrow> start_charging w sid uid target cid dcode = (w, False, 0, SystemError e))"
proof (intro conjI allI impI)
  fix w1 cost msg
  assume H: "(truthy_code dcode = None \<and> w1 = w \<and> cost = target * price_per_kwh session
               \<and> u_balance u < cost \<and> msg = InsufficientBalance cost (u_balance u))
          \<or> (\<exists>c. truthy_code dcode = Some c
                 \<and> apply_discount w (target * price_per_kwh session) c = Inr (w1, cost, SUCCESS)
                 \<and> u_balance u < cost \<and> msg = InsufficientBalance cost (u_balance u))
          \<or> (\<exists>c st. truthy_code dcode = Some c
                 \<and> apply_discount w (target * price_per_kwh session) c = Inr (w1, cost, st)
                 \<and> st \<noteq> SUCCESS \<and> msg = DiscountError st)"
  have frame: "active_sessions w1 = active_sessions w \<and> charging_sessions w1 = charging_sessions w
      \<and> ports w1 = ports w \<and> db_fails w1 = db_fails w"
    using H by (auto dest: apply_discount_frame)
  have run: "start_charging w sid uid target cid dcode
           = release_port w1 (port_id session) cost msg"
    using assms H by (auto simp: start_charging_def Let_def)
  from release_port_result[of w1 "port_id session" cost msg]
  show "\<exists>w2 c m. start_charging w sid uid target cid dcode = (w2, False, c, m)
                 \<and> active_sessions w2 = active_sessions w
                 \<and> charging_sessions w2 = charging_sessions w
                 \<and> (ports w (port_id session) = None \<longrightarrow>
                        c = cost \<and> m = msg \<and> ports w2 = ports w)
                 \<and> (\<forall>p. ports w (port_id session) = Some p \<and> \<not> db_fails w PortCommit \<longrightarrow>
                        c = cost \<and> m = msg
                      \<and> ports w2 = (ports w)(port_id session \<mapsto> p\<lparr>p_status := ''Available''\<rparr>))
                 \<and> (\<forall>p. ports w (port_id session) = Some p \<and> db_fails w PortCommit \<longrightarrow>
                        c = 0 \<and> m = SystemError DatabaseError \<and> ports w2 = ports w)"
    unfolding run using frame by simp
next
  fix c e
  assume "truthy_code dcode = Some c
                 \<and> apply_discount w (target * price_per_kwh session) c = Inl e"
  then show "start_charging w sid uid target cid dcode = (w, False, 0, SystemError e)"
    using assms by (simp add: start_charging_def Let_def)
qed

text \<open>
  C5 does not hold as stated.  The user of the first call has balance 5 and asks for
  10 kWh at 2.00 per kWh with a discount code that does not exist: the estimated cost
  stays 20, above the balance, and the call fails with the discount error NOT_FOUND,
  not with the message of insufficient balance; the port is released.  In the second
  call no code is given and the write of the port fails: the call returns the system
  error with cost 0 and the port stays InUse.
\<close>

theorem start_charging_other_failure_counterexample:
  "map_option u_balance (users (fst (initialize_charging demo_idle_world 1 1)) 1) = Some 5
   \<and> (case start_charging (fst (initialize_charging demo_idle_world 1 1)) 1 1 10 1
             (Some ''NOPE'') of
        (w2, ok, c, m) \<Rightarrow> (ok, c, m, map_option p_status (ports w2 1)))
       = (False, 20, DiscountError NOT_FOUND, Some ''Available'')
   \<and> (case start_charging
             ((fst (initialize_charging demo_idle_world 1 1))
                \<lparr>db_fails := (\<lambda>op. op = PortCommit)\<rparr>) 1 1 10 1 None of
        (w2, ok, c, m) \<Rightarrow> (ok, c, m, map_option p_status (ports w2 1)))
       = (False, 0, SystemError DatabaseError, Some ''InUse'')"
  by (simp add: registry_defs demo_idle_world_def start_charging_def apply_discount_def
        truthy_code_def Let_def)

theorem start_charging_insufficient_balance_witness:
  "\<exists>w2. start_charging (fst (initialize_charging demo_idle_world 1 1)) 1 1 10 1 None
          = (w2, False, 20, InsufficientBalance 20 5)
      \<and> map_option p_status (ports w2 1) = Some ''Available''
      \<and> map_option charging_status (active_sessions w2 1) = Some ''initialized''"
proof -
  let ?w = "fst (initialize_charging demo_idle_world 1 1)"
  let ?s = "the (active_sessions ?w 1)"
  let ?p = "\<lparr>p_station_id = 1, p_max_power = 22, p_connector_type = ''Type2'',
             p_status = ''InUse''\<rparr>"
  have h1: "get_session_status ?w 1 = Some ?s"
    by (simp add: registry_defs demo_idle_world_def)
  have e: "?s = \<lparr>session_id = 1, user_id = 1, port_id = 1, station_id = 1, max_power = 22,
      price_per_kwh = 2, connector_type = ''Type2'', charging_status = ''initialized'',
      started_on = 1000, current_kwh = 0, current_power = 0, current_cost = 0,
      car_id = None, target_kwh = None, estimated_cost = None, discount_code = None,
      last_points_kwh = None\<rparr>"
    by (simp add: registry_defs demo_idle_world_def)
  have s: "user_id ?s = 1" "port_id ?s = 1" "price_per_kwh ?s = 2"
    "charging_status ?s = ''initialized''"
    by (simp_all only: e active_session.simps)
  have h3: "users ?w 1 = Some \<lparr>u_balance = 5, u_points = Some 0\<rparr>"
    by (simp add: registry_defs demo_idle_world_def)
  have p: "ports ?w 1 = Some ?p" and nf: "\<not> db_fails ?w PortCommit"
    by (simp_all add: registry_defs demo_idle_world_def)
  have a: "active_sessions ?w 1 = Some ?s"
    using h1 by (simp add: get_session_status_def)
  note r = start_charging_insufficient_balance[OF h1 s(1) h3, of None 10 1,
      THEN conjunct1, rule_format, of ?w 20 "InsufficientBalance 20 5", unfolded s(2)]
  have "\<exists>w2 c m. start_charging ?w 1 1 10 1 None = (w2, False, c, m)
                 \<and> active_sessions w2 = active_sessions ?w
                 \<and> charging_sessions w2 = charging_sessions ?w
                 \<and> (ports ?w 1 = None \<longrightarrow>
                        c = 20 \<and> m = InsufficientBalance 20 5 \<and> ports w2 = ports ?w)
                 \<and> (\<forall>p. ports ?w 1 = Some p \<and> \<not> db_fails ?w PortCommit \<longrightarrow>
                        c = 20 \<and> m = InsufficientBalance 20 5
                      \<and> ports w2 = (ports ?w)(1 \<mapsto> p\<lparr>p_status := ''Available''\<rparr>))
                 \<and> (\<forall>p. ports ?w 1 = Some p \<and> db_fails ?w PortCommit \<longrightarrow>
                        c = 0 \<and> m = SystemError DatabaseError \<and> ports w2 = ports ?w)"
    by (rule r) (simp only: s(3), simp add: truthy_code_def)
  then obtain w2 c m where
    run: "start_charging ?w 1 1 10 1 None = (w2, False, c, m)"
    and reg: "active_sessions w2 = active_sessions ?w"
    and ok: "\<forall>p. ports ?w 1 = Some p \<and> \<not> db_fails ?w PortCommit \<longrightarrow>
                        c = 20 \<and> m = InsufficientBalance 20 5
                      \<and> ports w2 = (ports ?w)(1 \<mapsto> p\<lparr>p_status := ''Available''\<rparr>)"
    by blast
  from ok p nf have cm: "c = 20" "m = InsufficientBalance 20 5"
    and pw: "ports w2 = (ports ?w)(1 \<mapsto> ?p\<lparr>p_status := ''Available''\<rparr>)"
    by blast+
  have c1: "start_charging ?w 1 1 10 1 None = (w2, False, 20, InsufficientBalance 20 5)"
    using run cm by simp
  have c2: "map_option p_status (ports w2 1) = Some ''Available''"
    by (simp add: pw)
  have a2: "active_sessions w2 1 = Some ?s"
    using a by (simp only: reg)
  have c3: "map_option charging_status (active_sessions w2 1) = Some ''initialized''"
    by (simp only: a2 option.map s(4))
  from c1 c2 c3 show ?thesis by blast
qed

text \<open>
  C2 fails on the code.  \<open>initialize_charging\<close> does not look at the status of the
  port: called twice for the same port it leaves two persisted sessions without end
  timestamp on that port and two registry entries that reference it.
\<close>

theorem double_initialize_same_port:
  "map (\<lambda>r. (cs_id r, cs_port_id r, cs_end_on r))
     (charging_sessions
        (fst (initialize_charging (fst (initialize_charging demo_idle_world 1 1)) 2 1)))
     = [(1, 1, None), (2, 1, None)]
   \<and> map_option port_id (active_sessions
        (fst (initialize_charging (fst (initialize_charging demo_idle_world 1 1)) 2 1)) 1)
       = Some 1
   \<and> map_option port_id (active_sessions
        (fst (initialize_charging (fst (initialize_charging demo_idle_world 1 1)) 2 1)) 2)
       = Some 1
   \<and> map_option p_status (ports
        (fst (initialize_charging (fst (initialize_charging demo_idle_world 1 1)) 2 1)) 1)
       = Some ''InUse''"
  by (simp add: registry_defs demo_idle_world_def)

end
